theory Spec2Isabelle
  imports Complex_Main
begin

section \<open>Library models: calendar dates\<close>

text \<open>
  A Python \<open>datetime\<close>: calendar year, month, day and the time of day in microseconds
  since midnight. Python orders datetimes lexicographically on these components.
\<close>

record datetime =
  dt_year :: int
  dt_month :: int
  dt_day :: int
  dt_tod :: nat

definition is_leap :: "int \<Rightarrow> bool" where
  "is_leap y = (y mod 4 = 0 \<and> (y mod 100 \<noteq> 0 \<or> y mod 400 = 0))"

definition days_in_month :: "int \<Rightarrow> int \<Rightarrow> int" where
  "days_in_month y m =
     (if m = 2 then (if is_leap y then 29 else 28)
      else if m = 4 \<or> m = 6 \<or> m = 9 \<or> m = 11 then 30 else 31)"

definition valid_ymd :: "int \<Rightarrow> int \<Rightarrow> int \<Rightarrow> bool" where
  "valid_ymd y m d =
     (1 \<le> y \<and> y \<le> 9999 \<and> 1 \<le> m \<and> m \<le> 12 \<and> 1 \<le> d \<and> d \<le> days_in_month y m)"

datatype py_error = ValueError string | OverflowError

text \<open>\<open>datetime(y, m, d)\<close>: midnight of that day, ValueError outside the calendar.\<close>

definition mk_datetime :: "int \<Rightarrow> int \<Rightarrow> int \<Rightarrow> py_error + datetime" where
  "mk_datetime y m d =
     (if valid_ymd y m d
      then Inr \<lparr>dt_year = y, dt_month = m, dt_day = d, dt_tod = 0\<rparr>
      else Inl (ValueError ''date out of range''))"

text \<open>\<open>dt - relativedelta(days=1)\<close>: the same time on the previous calendar day;
  OverflowError when that day would precede 0001-01-01.\<close>

definition minus_one_day :: "datetime \<Rightarrow> py_error + datetime" where
  "minus_one_day dt =
     (if 1 < dt_day dt then Inr (dt\<lparr>dt_day := dt_day dt - 1\<rparr>)
      else if 1 < dt_month dt
        then Inr (dt\<lparr>dt_month := dt_month dt - 1,
                     dt_day := days_in_month (dt_year dt) (dt_month dt - 1)\<rparr>)
      else if 1 < dt_year dt
        then Inr (dt\<lparr>dt_year := dt_year dt - 1, dt_month := 12, dt_day := 31\<rparr>)
      else Inl OverflowError)"

text \<open>\<open>a > b\<close> on datetimes.\<close>

definition dt_gt :: "datetime \<Rightarrow> datetime \<Rightarrow> bool" where
  "dt_gt a b =
     (dt_year a > dt_year b \<or>
      (dt_year a = dt_year b \<and>
        (dt_month a > dt_month b \<or>
         (dt_month a = dt_month b \<and>
           (dt_day a > dt_day b \<or> (dt_day a = dt_day b \<and> dt_tod a > dt_tod b))))))"

section \<open>Library models: strings\<close>

text \<open>
  Strings are lists of characters with code points below 256. \<open>is_space\<close> is
  \<open>str.isspace\<close> on that range, which \<open>str.strip\<close> and \<open>int\<close> share.
\<close>

definition is_space :: "char \<Rightarrow> bool" where
  "is_space c =
     (let n = (of_char c :: nat)
      in (9 \<le> n \<and> n \<le> 13) \<or> (28 \<le> n \<and> n \<le> 32) \<or> n = 133 \<or> n = 160)"

definition py_strip :: "string \<Rightarrow> string" where
  "py_strip s = rev (dropWhile is_space (rev (dropWhile is_space s)))"

definition is_digit :: "char \<Rightarrow> bool" where
  "is_digit c = (48 \<le> (of_char c :: nat) \<and> (of_char c :: nat) \<le> 57)"

definition digit_val :: "char \<Rightarrow> nat" where
  "digit_val c = of_char c - 48"

definition digit_char :: "nat \<Rightarrow> char" where
  "digit_char n = char_of (48 + n)"

text \<open>The digits of a decimal literal after the sign: single underscores may separate
  digits, as \<open>int\<close> accepts them.\<close>

fun digits_us :: "nat \<Rightarrow> string \<Rightarrow> nat option" where
  "digits_us acc [] = Some acc"
| "digits_us acc (c # cs) =
     (if is_digit c then digits_us (10 * acc + digit_val c) cs
      else if c = CHR ''_''
        then (case cs of
                [] \<Rightarrow> None
              | d # _ \<Rightarrow> if is_digit d then digits_us acc cs else None)
      else None)"

definition py_nat_lit :: "string \<Rightarrow> nat option" where
  "py_nat_lit s =
     (case s of [] \<Rightarrow> None | c # _ \<Rightarrow> if is_digit c then digits_us 0 s else None)"

text \<open>\<open>int(s)\<close> in base 10; \<open>None\<close> stands for the ValueError.\<close>

definition py_int :: "string \<Rightarrow> int option" where
  "py_int s =
     (case py_strip s of
        [] \<Rightarrow> None
      | c # r \<Rightarrow>
          if c = CHR ''+'' then map_option int (py_nat_lit r)
          else if c = CHR ''-'' then map_option (\<lambda>n. - int n) (py_nat_lit r)
          else map_option int (py_nat_lit (c # r)))"

fun str_nat :: "nat \<Rightarrow> string" where
  "str_nat n = (if n < 10 then [digit_char n] else str_nat (n div 10) @ [digit_char (n mod 10)])"

declare str_nat.simps [simp del]

text \<open>\<open>str(i)\<close>, which is also what \<open>f"{i}"\<close> inserts.\<close>

definition py_str :: "int \<Rightarrow> string" where
  "py_str i = (if i < 0 then CHR ''-'' # str_nat (nat (- i)) else str_nat (nat i))"

text \<open>\<open>f"{i:02d}"\<close>: zero-padded to width two, the sign counting towards the width.\<close>

definition fmt_02d :: "int \<Rightarrow> string" where
  "fmt_02d i = (if 0 \<le> i \<and> i < 10 then CHR ''0'' # py_str i else py_str i)"

text \<open>\<open>s.split("-")\<close>, generalised to any separator character.\<close>

fun split_on :: "char \<Rightarrow> string \<Rightarrow> string list" where
  "split_on sep [] = [[]]"
| "split_on sep (x # xs) =
     (if x = sep then [] # split_on sep xs
      else (case split_on sep xs of [] \<Rightarrow> [[x]] | p # ps \<Rightarrow> (x # p) # ps))"

subsection \<open>strptime and strftime with the format %Y-%m-%d\<close>

text \<open>
  \<open>strptime\<close> compiles the format to the regular expression
  \<open>(\d\d\d\d)-(1[0-2]|0[1-9]|[1-9])-(3[0-1]|[1-2]\d|0[1-9]|[1-9]| [1-9])\<close>, takes the
  first alternative that matches, and rejects input left over after the match.
\<close>

definition is_digit19 :: "char \<Rightarrow> bool" where
  "is_digit19 c = (is_digit c \<and> c \<noteq> CHR ''0'')"

fun match_m :: "string \<Rightarrow> (int \<times> string) option" where
  "match_m (a # b # r) =
     (if a = CHR ''1'' \<and> (b = CHR ''0'' \<or> b = CHR ''1'' \<or> b = CHR ''2'')
        then Some (10 + int (digit_val b), r)
      else if a = CHR ''0'' \<and> is_digit19 b then Some (int (digit_val b), r)
      else if is_digit19 a then Some (int (digit_val a), b # r)
      else None)"
| "match_m [a] = (if is_digit19 a then Some (int (digit_val a), []) else None)"
| "match_m [] = None"

fun match_d :: "string \<Rightarrow> (int \<times> string) option" where
  "match_d (a # b # r) =
     (if a = CHR ''3'' \<and> (b = CHR ''0'' \<or> b = CHR ''1'')
        then Some (30 + int (digit_val b), r)
      else if (a = CHR ''1'' \<or> a = CHR ''2'') \<and> is_digit b
        then Some (10 * int (digit_val a) + int (digit_val b), r)
      else if a = CHR ''0'' \<and> is_digit19 b then Some (int (digit_val b), r)
      else if is_digit19 a then Some (int (digit_val a), b # r)
      else if a = CHR '' '' \<and> is_digit19 b then Some (int (digit_val b), r)
      else None)"
| "match_d [a] = (if is_digit19 a then Some (int (digit_val a), []) else None)"
| "match_d [] = None"

definition strptime_ymd :: "string \<Rightarrow> py_error + datetime" where
  "strptime_ymd s =
     (case s of
        y1 # y2 # y3 # y4 # c # rest \<Rightarrow>
          if is_digit y1 \<and> is_digit y2 \<and> is_digit y3 \<and> is_digit y4 \<and> c = CHR ''-''
          then (case match_m rest of
                  Some (m, c2 # rest2) \<Rightarrow>
                    if c2 = CHR ''-''
                    then (case match_d rest2 of
                            Some (d, []) \<Rightarrow>
                              mk_datetime
                                (int (1000 * digit_val y1 + 100 * digit_val y2
                                      + 10 * digit_val y3 + digit_val y4)) m d
                          | _ \<Rightarrow> Inl (ValueError ''does not match format''))
                    else Inl (ValueError ''does not match format'')
                | _ \<Rightarrow> Inl (ValueError ''does not match format''))
          else Inl (ValueError ''does not match format'')
      | _ \<Rightarrow> Inl (ValueError ''does not match format''))"

text \<open>\<open>dt.strftime("%Y-%m-%d")\<close>: year on four digits, month and day on two.\<close>

definition pad2 :: "int \<Rightarrow> string" where
  "pad2 n = [digit_char (nat n div 10 mod 10), digit_char (nat n mod 10)]"

definition pad4 :: "int \<Rightarrow> string" where
  "pad4 n = [digit_char (nat n div 1000 mod 10), digit_char (nat n div 100 mod 10),
             digit_char (nat n div 10 mod 10), digit_char (nat n mod 10)]"

definition strftime_ymd :: "datetime \<Rightarrow> string" where
  "strftime_ymd dt = pad4 (dt_year dt) @ ''-'' @ pad2 (dt_month dt) @ ''-'' @ pad2 (dt_day dt)"

section \<open>The date normalizer of fetcher.py\<close>

text \<open>A \<open>try\<close> block whose \<open>except ValueError\<close> clause raises a ValueError with a
  message of its own; any other exception passes through.\<close>

definition except_ValueError :: "string \<Rightarrow> py_error + 'a \<Rightarrow> py_error + 'a" where
  "except_ValueError msg r =
     (case r of Inl (ValueError _) \<Rightarrow> Inl (ValueError msg) | _ \<Rightarrow> r)"

definition of_int_opt :: "int option \<Rightarrow> py_error + int" where
  "of_int_opt r = (case r of None \<Rightarrow> Inl (ValueError ''invalid literal for int()'') | Some i \<Rightarrow> Inr i)"

text \<open>
  \<open>parse_date_input(date_str, is_start)\<close>; the reference time \<open>now\<close> is what
  \<open>datetime.now()\<close> returns during the call.
\<close>

definition parse_date_input :: "datetime \<Rightarrow> string \<Rightarrow> bool \<Rightarrow> py_error + string" where
  "parse_date_input now date_str0 is_start =
     (let date_str = py_strip date_str0 in
      case minus_one_day now of
        Inl e \<Rightarrow> Inl e
      | Inr yesterday \<Rightarrow>
          if length date_str = 4 then
            except_ValueError ''Invalid year format. Please use YYYY.''
              (case of_int_opt (py_int date_str) of
                 Inl e \<Rightarrow> Inl e
               | Inr year \<Rightarrow>
                   if is_start then Inr (py_str year @ ''-01-01'')
                   else
                     (let result_date = py_str year @ ''-12-31'' in
                      case strptime_ymd result_date of
                        Inl e \<Rightarrow> Inl e
                      | Inr parsed_date \<Rightarrow>
                          if dt_gt parsed_date yesterday then Inr (strftime_ymd yesterday)
                          else Inr result_date))
          else if length date_str = 7 \<and> date_str ! 4 = CHR ''-'' then
            except_ValueError ''Invalid year-month format. Please use YYYY-MM.''
              (case split_on CHR ''-'' date_str of
                 [ys, ms] \<Rightarrow>
                   (case of_int_opt (py_int ys) of
                      Inl e \<Rightarrow> Inl e
                    | Inr year \<Rightarrow>
                        (case of_int_opt (py_int ms) of
                           Inl e \<Rightarrow> Inl e
                         | Inr month \<Rightarrow>
                             if month < 1 \<or> month > 12
                               then Inl (ValueError ''Month must be between 1 and 12.'')
                             else if is_start
                               then Inr (py_str year @ ''-'' @ fmt_02d month @ ''-01'')
                             else
                               (case (if month = 12 then mk_datetime (year + 1) 1 1
                                      else mk_datetime year (month + 1) 1) of
                                  Inl e \<Rightarrow> Inl e
                                | Inr next_month_date \<Rightarrow>
                                    (case minus_one_day next_month_date of
                                       Inl e \<Rightarrow> Inl e
                                     | Inr prev \<Rightarrow>
                                         (let last_day = dt_day prev;
                                              result_date = py_str year @ ''-'' @ fmt_02d month
                                                            @ ''-'' @ fmt_02d last_day in
                                          case strptime_ymd result_date of
                                            Inl e \<Rightarrow> Inl e
                                          | Inr parsed_date \<Rightarrow>
                                              if dt_gt parsed_date yesterday
                                                then Inr (strftime_ymd yesterday)
                                              else Inr result_date)))))
               | _ \<Rightarrow> Inl (ValueError ''wrong number of values to unpack''))
          else if length date_str = 10 \<and> date_str ! 4 = CHR ''-'' \<and> date_str ! 7 = CHR ''-'' then
            except_ValueError ''Invalid date format. Please use YYYY-MM-DD.''
              (case strptime_ymd date_str of
                 Inl e \<Rightarrow> Inl e
               | Inr parsed_date \<Rightarrow>
                   if \<not> is_start \<and> dt_gt parsed_date yesterday
                     then Inr (strftime_ymd yesterday)
                   else Inr date_str)
          else Inl (ValueError ''Invalid date format. Please use YYYY, YYYY-MM, or YYYY-MM-DD.''))"


section \<open>The date normalizer of open_meteo_fetcher.py\<close>

text \<open>The duplicate command-line fetcher carries its own \<open>parse_date_input\<close>,
  translated here from that file.\<close>

definition parse_date_input_omf :: "datetime \<Rightarrow> string \<Rightarrow> bool \<Rightarrow> py_error + string" where
  "parse_date_input_omf now date_str0 is_start =
     (let date_str = py_strip date_str0 in
      case minus_one_day now of
        Inl e \<Rightarrow> Inl e
      | Inr yesterday \<Rightarrow>
          if length date_str = 4 then
            except_ValueError ''Invalid year format. Please use YYYY.''
              (case of_int_opt (py_int date_str) of
                 Inl e \<Rightarrow> Inl e
               | Inr year \<Rightarrow>
                   if is_start then Inr (py_str year @ ''-01-01'')
                   else
                     (let result_date = py_str year @ ''-12-31'' in
                      case strptime_ymd result_date of
                        Inl e \<Rightarrow> Inl e
                      | Inr parsed_date \<Rightarrow>
                          if dt_gt parsed_date yesterday then Inr (strftime_ymd yesterday)
                          else Inr result_date))
          else if length date_str = 7 \<and> date_str ! 4 = CHR ''-'' then
            except_ValueError ''Invalid year-month format. Please use YYYY-MM.''
              (case split_on CHR ''-'' date_str of
                 [ys, ms] \<Rightarrow>
                   (case of_int_opt (py_int ys) of
                      Inl e \<Rightarrow> Inl e
                    | Inr year \<Rightarrow>
                        (case of_int_opt (py_int ms) of
                           Inl e \<Rightarrow> Inl e
                         | Inr month \<Rightarrow>
                             if month < 1 \<or> month > 12
                               then Inl (ValueError ''Month must be between 1 and 12.'')
                             else if is_start
                               then Inr (py_str year @ ''-'' @ fmt_02d month @ ''-01'')
                             else
                               (case (if month = 12 then mk_datetime (year + 1) 1 1
                                      else mk_datetime year (month + 1) 1) of
                                  Inl e \<Rightarrow> Inl e
                                | Inr next_month_date \<Rightarrow>
                                    (case minus_one_day next_month_date of
                                       Inl e \<Rightarrow> Inl e
                                     | Inr prev \<Rightarrow>
                                         (let last_day = dt_day prev;
                                              result_date = py_str year @ ''-'' @ fmt_02d month
                                                            @ ''-'' @ fmt_02d last_day in
                                          case strptime_ymd result_date of
                                            Inl e \<Rightarrow> Inl e
                                          | Inr parsed_date \<Rightarrow>
                                              if dt_gt parsed_date yesterday
                                                then Inr (strftime_ymd yesterday)
                                              else Inr result_date)))))
               | _ \<Rightarrow> Inl (ValueError ''wrong number of values to unpack''))
          else if length date_str = 10 \<and> date_str ! 4 = CHR ''-'' \<and> date_str ! 7 = CHR ''-'' then
            except_ValueError ''Invalid date format. Please use YYYY-MM-DD.''
              (case strptime_ymd date_str of
                 Inl e \<Rightarrow> Inl e
               | Inr parsed_date \<Rightarrow>
                   if \<not> is_start \<and> dt_gt parsed_date yesterday
                     then Inr (strftime_ymd yesterday)
                   else Inr date_str)
          else Inl (ValueError ''Invalid date format. Please use YYYY, YYYY-MM, or YYYY-MM-DD.''))"

section \<open>The filter/aggregate engine\<close>

text \<open>
  The \<open>daily\<close> block of a stored payload: four positionally aligned arrays. Days are
  taken as already read by \<open>pd.to_datetime\<close>, as (year, month, day); a temperature is
  an exact rational, \<open>None\<close> for a JSON null (a NaN of the frame). Rounding of
  floating-point sums is outside the model.
\<close>

record daily =
  time :: "(int \<times> int \<times> int) list"
  temperature_2m_min :: "rat option list"
  temperature_2m_max :: "rat option list"
  temperature_2m_mean :: "rat option list"

record row =
  date :: "int \<times> int \<times> int"
  temp_min :: "rat option"
  temp_max :: "rat option"
  temp_mean :: "rat option"
  row_year :: int
  row_month :: int

text \<open>The frame: one row per index, with the derived \<open>year\<close> and \<open>month\<close> columns.
  \<open>pd.DataFrame\<close> raises ValueError when the arrays differ in length.\<close>

definition mk_row :: "(int \<times> int \<times> int) \<times> rat option \<times> rat option \<times> rat option \<Rightarrow> row" where
  "mk_row t =
     (case t of (d, mn, mx, me) \<Rightarrow>
        \<lparr>date = d, temp_min = mn, temp_max = mx, temp_mean = me,
         row_year = fst d, row_month = fst (snd d)\<rparr>)"

definition make_frame :: "daily \<Rightarrow> py_error + row list" where
  "make_frame dd =
     (if length (temperature_2m_min dd) = length (time dd)
         \<and> length (temperature_2m_max dd) = length (time dd)
         \<and> length (temperature_2m_mean dd) = length (time dd)
      then Inr (map mk_row
                  (zip (time dd)
                     (zip (temperature_2m_min dd)
                        (zip (temperature_2m_max dd) (temperature_2m_mean dd)))))
      else Inl (ValueError ''All arrays must be of the same length''))"

record yearly =
  st_year :: int
  st_temp_mean :: "rat option"
  st_temp_min :: "rat option"
  st_temp_max :: "rat option"

text \<open>How a run of \<open>visualize_weather_data\<close> ends: an exception, one of its two
  reports, or the chart drawn from the yearly aggregate.\<close>

datatype outcome =
    Raised py_error
  | NoDataStartYear int
  | NoUsableData
  | Chart "yearly list"

text \<open>The mean of a column of a group: pandas skips the NaNs, and the mean of none is NaN.\<close>

definition pd_mean :: "rat option list \<Rightarrow> rat option" where
  "pd_mean xs =
     (let vs = map the (filter (\<lambda>x. x \<noteq> None) xs)
      in if vs = [] then None else Some (sum_list vs / of_nat (length vs)))"

text \<open>\<open>groupby("year").agg(mean)\<close>: one record per year present, in ascending order.\<close>

definition yearly_stats :: "row list \<Rightarrow> yearly list" where
  "yearly_stats df_clean =
     map (\<lambda>y. let g = filter (\<lambda>r. row_year r = y) df_clean
              in \<lparr>st_year = y,
                  st_temp_mean = pd_mean (map temp_mean g),
                  st_temp_min = pd_mean (map temp_min g),
                  st_temp_max = pd_mean (map temp_max g)\<rparr>)
         (sort (remdups (map row_year df_clean)))"

definition dropna_temp_mean :: "row list \<Rightarrow> row list" where
  "dropna_temp_mean df = filter (\<lambda>r. temp_mean r \<noteq> None) df"

subsection \<open>visualizer.py\<close>

definition filter_by_year ::
  "int \<Rightarrow> int option \<Rightarrow> (int \<times> int) option \<Rightarrow> row list \<Rightarrow> outcome + row list" where
  "filter_by_year current_year year year_range df =
     (case year of
        Some y \<Rightarrow>
          (let y' = (if y \<ge> current_year then min y (current_year - 1) else y)
           in Inr (filter (\<lambda>r. row_year r = y') df))
      | None \<Rightarrow>
          (case year_range of
             Some (start_year, end_year0) \<Rightarrow>
               (let end_year = (if end_year0 \<ge> current_year
                                then min end_year0 (current_year - 1) else end_year0)
                in if start_year \<ge> current_year then Inl (NoDataStartYear start_year)
                   else Inr (filter (\<lambda>r. row_year r \<ge> start_year \<and> row_year r \<le> end_year) df))
           | None \<Rightarrow> Inr (filter (\<lambda>r. row_year r < current_year) df)))"

definition filter_by_month ::
  "int \<Rightarrow> int \<Rightarrow> int option \<Rightarrow> (int \<times> int) option \<Rightarrow> row list \<Rightarrow> row list" where
  "filter_by_month current_year current_month month month_range df =
     (case month of
        Some m \<Rightarrow>
          filter (\<lambda>r. row_month r = m)
            (filter (\<lambda>r. \<not> (row_year r = current_year \<and> row_month r \<ge> current_month)) df)
      | None \<Rightarrow>
          (case month_range of
             Some (start_month, end_month) \<Rightarrow>
               (let df' = filter (\<lambda>r. \<not> (row_year r = current_year
                                            \<and> row_month r \<ge> current_month)) df
                in if start_month \<le> end_month
                   then filter (\<lambda>r. row_month r \<ge> start_month \<and> row_month r \<le> end_month) df'
                   else filter (\<lambda>r. row_month r \<ge> start_month \<or> row_month r \<le> end_month) df')
           | None \<Rightarrow>
               filter (\<lambda>r. \<not> (row_year r = current_year \<and> row_month r \<ge> current_month)) df))"

text \<open>\<open>visualize_weather_data\<close> from the construction of the frame on; \<open>now\<close> is what
  \<open>datetime.now()\<close> returns. Drawing and saving the chart are not modelled.\<close>

definition visualize_weather_data ::
  "datetime \<Rightarrow> daily \<Rightarrow> int option \<Rightarrow> (int \<times> int) option \<Rightarrow> int option
     \<Rightarrow> (int \<times> int) option \<Rightarrow> outcome" where
  "visualize_weather_data now dd year year_range month month_range =
     (case make_frame dd of
        Inl e \<Rightarrow> Raised e
      | Inr df \<Rightarrow>
          (let current_year = dt_year now; current_month = dt_month now in
           case filter_by_year current_year year year_range df of
             Inl report \<Rightarrow> report
           | Inr df1 \<Rightarrow>
               (let df_filtered = filter_by_month current_year current_month month month_range df1;
                    df_clean = dropna_temp_mean df_filtered
                in if df_clean = [] then NoUsableData else Chart (yearly_stats df_clean))))"

subsection \<open>visualization_openmeteo.py\<close>

definition filter_by_year_om ::
  "int option \<Rightarrow> (int \<times> int) option \<Rightarrow> row list \<Rightarrow> row list" where
  "filter_by_year_om year year_range df =
     (case year of
        Some y \<Rightarrow> filter (\<lambda>r. row_year r = y) df
      | None \<Rightarrow>
          (case year_range of
             Some (start_year, end_year) \<Rightarrow>
               filter (\<lambda>r. row_year r \<ge> start_year \<and> row_year r \<le> end_year) df
           | None \<Rightarrow> df))"

definition filter_by_month_om ::
  "int option \<Rightarrow> (int \<times> int) option \<Rightarrow> row list \<Rightarrow> row list" where
  "filter_by_month_om month month_range df =
     (case month of
        Some m \<Rightarrow> filter (\<lambda>r. row_month r = m) df
      | None \<Rightarrow>
          (case month_range of
             Some (start_month, end_month) \<Rightarrow>
               (if start_month \<le> end_month
                then filter (\<lambda>r. row_month r \<ge> start_month \<and> row_month r \<le> end_month) df
                else filter (\<lambda>r. row_month r \<ge> start_month \<or> row_month r \<le> end_month) df)
           | None \<Rightarrow> df))"

definition visualize_weather_data_om ::
  "daily \<Rightarrow> int option \<Rightarrow> (int \<times> int) option \<Rightarrow> int option
     \<Rightarrow> (int \<times> int) option \<Rightarrow> outcome" where
  "visualize_weather_data_om dd year year_range month month_range =
     (case make_frame dd of
        Inl e \<Rightarrow> Raised e
      | Inr df \<Rightarrow>
          (let df_filtered = filter_by_month_om month month_range
                               (filter_by_year_om year year_range df);
               df_clean = dropna_temp_mean df_filtered
           in if df_clean = [] then NoUsableData else Chart (yearly_stats df_clean)))"

section \<open>The command-line entry points of the visualizers\<close>

text \<open>
  The filter arguments as \<open>argparse\<close> delivers them: an absent option is \<open>None\<close>, a
  range is a pair. \<open>--month\<close> is declared with \<open>choices=range(1, 13)\<close>, so \<open>argparse\<close>
  itself leaves with status 2 on any other month.
\<close>

record cli_args =
  arg_year :: "int option"
  arg_year_range :: "(int \<times> int) option"
  arg_month :: "int option"
  arg_month_range :: "(int \<times> int) option"

datatype cli_outcome =
    Exit int string
  | Run "int option" "(int \<times> int) option" "int option" "(int \<times> int) option"

text \<open>Truth value of an optional integer in a condition: \<open>None\<close> and 0 are false.\<close>

definition truthy :: "int option \<Rightarrow> bool" where
  "truthy v = (case v of None \<Rightarrow> False | Some n \<Rightarrow> n \<noteq> 0)"

definition month_choice_ok :: "int option \<Rightarrow> bool" where
  "month_choice_ok v = (case v of None \<Rightarrow> True | Some m \<Rightarrow> 1 \<le> m \<and> m < 13)"

text \<open>The four checks of the \<open>__main__\<close> block of visualizer.py, in order; the result
  is the message printed before \<open>exit(1)\<close>.\<close>

definition year_conflict :: "cli_args \<Rightarrow> bool" where
  "year_conflict args = (truthy (arg_year args) \<and> arg_year_range args \<noteq> None)"

definition month_conflict :: "cli_args \<Rightarrow> bool" where
  "month_conflict args = (truthy (arg_month args) \<and> arg_month_range args \<noteq> None)"

definition validate_args :: "cli_args \<Rightarrow> string option" where
  "validate_args args =
     (if year_conflict args then Some ''Cannot specify both --year and --year-range''
      else if month_conflict args then Some ''Cannot specify both --month and --month-range''
      else if (case arg_month_range args of
                 None \<Rightarrow> False
               | Some (start_month, end_month) \<Rightarrow>
                   \<not> (1 \<le> start_month \<and> start_month \<le> 12 \<and> 1 \<le> end_month \<and> end_month \<le> 12))
        then Some ''Month range values must be between 1 and 12''
      else if (case arg_year_range args of
                 None \<Rightarrow> False
               | Some (start_year, end_year) \<Rightarrow> start_year > end_year)
        then Some ''Start year must be less than or equal to end year''
      else None)"

definition main_visualizer :: "cli_args \<Rightarrow> cli_outcome" where
  "main_visualizer args =
     (if \<not> month_choice_ok (arg_month args) then Exit 2 ''argument --month: invalid choice''
      else case validate_args args of
             Some msg \<Rightarrow> Exit 1 msg
           | None \<Rightarrow> Run (arg_year args) (arg_year_range args)
                        (arg_month args) (arg_month_range args))"

text \<open>The same block of visualization_openmeteo.py.\<close>

definition year_conflict_om :: "cli_args \<Rightarrow> bool" where
  "year_conflict_om args = (truthy (arg_year args) \<and> arg_year_range args \<noteq> None)"

definition month_conflict_om :: "cli_args \<Rightarrow> bool" where
  "month_conflict_om args = (truthy (arg_month args) \<and> arg_month_range args \<noteq> None)"

definition validate_args_om :: "cli_args \<Rightarrow> string option" where
  "validate_args_om args =
     (if year_conflict_om args then Some ''Cannot specify both --year and --year-range''
      else if month_conflict_om args then Some ''Cannot specify both --month and --month-range''
      else if (case arg_month_range args of
                 None \<Rightarrow> False
               | Some (start_month, end_month) \<Rightarrow>
                   \<not> (1 \<le> start_month \<and> start_month \<le> 12 \<and> 1 \<le> end_month \<and> end_month \<le> 12))
        then Some ''Month range values must be between 1 and 12''
      else if (case arg_year_range args of
                 None \<Rightarrow> False
               | Some (start_year, end_year) \<Rightarrow> start_year > end_year)
        then Some ''Start year must be less than or equal to end year''
      else None)"

definition main_visualization_openmeteo :: "cli_args \<Rightarrow> cli_outcome" where
  "main_visualization_openmeteo args =
     (if \<not> month_choice_ok (arg_month args) then Exit 2 ''argument --month: invalid choice''
      else case validate_args_om args of
             Some msg \<Rightarrow> Exit 1 msg
           | None \<Rightarrow> Run (arg_year args) (arg_year_range args)
                        (arg_month args) (arg_month_range args))"

section \<open>Notions used to state the properties\<close>

text \<open>A calendar day lies after the day of a datetime.\<close>

definition date_after :: "int \<times> int \<times> int \<Rightarrow> datetime \<Rightarrow> bool" where
  "date_after ymd dt =
     (case ymd of (y, m, d) \<Rightarrow>
        y > dt_year dt \<or>
        (y = dt_year dt \<and> (m > dt_month dt \<or> (m = dt_month dt \<and> d > dt_day dt))))"

text \<open>Averaging by hand: the sum of the values present in a column divided by their
  number, undefined when there is none.\<close>

definition manual_mean :: "rat option list \<Rightarrow> rat option" where
  "manual_mean col =
     (if filter (\<lambda>x. x \<noteq> None) col = [] then None
      else Some ((\<Sum>x \<leftarrow> col. case x of None \<Rightarrow> 0 | Some v \<Rightarrow> v)
                 / of_nat (length (filter (\<lambda>x. x \<noteq> None) col))))"

text \<open>A month lies in a month range, a range whose start exceeds its end wrapping
  around the end of the year.\<close>

definition month_in_range :: "int \<times> int \<Rightarrow> int \<Rightarrow> bool" where
  "month_in_range rng m =
     (case rng of (s, e) \<Rightarrow> if s > e then m \<ge> s \<or> m \<le> e else s \<le> m \<and> m \<le> e)"


section \<open>Facts about digits and strings\<close>


lemma digit_char_digit_val: "is_digit c \<Longrightarrow> digit_char (digit_val c) = c"
  by (simp add: is_digit_def digit_char_def digit_val_def)
lemma digit_val_digit_char: "k < 10 \<Longrightarrow> digit_val (digit_char k) = k"
  by (simp add: digit_char_def digit_val_def)
lemma is_digit_digit_char: "k < 10 \<Longrightarrow> is_digit (digit_char k)"
  by (simp add: digit_char_def is_digit_def)
lemma digit_val_less: "is_digit c \<Longrightarrow> digit_val c < 10"
  by (auto simp add: is_digit_def digit_val_def)
lemma digit_not_space: "is_digit c \<Longrightarrow> \<not> is_space c"
  by (auto simp add: is_digit_def is_space_def Let_def)
lemma digit_not_special: "is_digit c \<Longrightarrow> c \<noteq> CHR ''-'' \<and> c \<noteq> CHR ''+'' \<and> c \<noteq> CHR ''_'' \<and> c \<noteq> CHR '' ''"
  by (auto simp add: is_digit_def)
lemma digit_eq_iff: "is_digit c \<Longrightarrow> k < 10 \<Longrightarrow> (c = digit_char k) = (digit_val c = k)"
  using digit_char_digit_val[of c] digit_val_digit_char[of k] by auto
lemma digit_char_lits:
  "digit_char 0 = CHR ''0''" "digit_char 1 = CHR ''1''" "digit_char 2 = CHR ''2''"
  "digit_char 3 = CHR ''3''" "digit_char 4 = CHR ''4''" "digit_char 5 = CHR ''5''"
  "digit_char 6 = CHR ''6''" "digit_char 7 = CHR ''7''" "digit_char 8 = CHR ''8''"
  "digit_char 9 = CHR ''9''"
  by code_simp+

lemma py_strip_id: "s \<noteq> [] \<Longrightarrow> \<not> is_space (hd s) \<Longrightarrow> \<not> is_space (last s) \<Longrightarrow> py_strip s = s"
proof -
  assume a: "s \<noteq> []" "\<not> is_space (hd s)" "\<not> is_space (last s)"
  have 1: "dropWhile is_space s = s" using a by (simp add: dropWhile_eq_self_iff)
  have 2: "dropWhile is_space (rev s) = rev s" using a by (simp add: dropWhile_eq_self_iff hd_rev)
  show ?thesis by (simp add: py_strip_def 1 2)
qed

lemma divmod10: "d < 10 \<Longrightarrow> (10 * k + d) div 10 = (k::nat) \<and> (10 * k + d) mod 10 = d"
  by simp
lemma str_nat_step: "d < 10 \<Longrightarrow> 1 \<le> k \<Longrightarrow> str_nat (10 * k + d) = str_nat k @ [digit_char d]"
  by (subst str_nat.simps) (simp add: divmod10)
lemma str_nat_digit: "d < 10 \<Longrightarrow> str_nat d = [digit_char d]"
  by (simp add: str_nat.simps)
lemma str_nat_4: 
  assumes "a < 10" "b < 10" "c < 10" "d < 10" "1 \<le> a"
  shows "str_nat (1000 * a + 100 * b + 10 * c + d) = [digit_char a, digit_char b, digit_char c, digit_char d]"
proof -
  have e: "1000 * a + 100 * b + 10 * c + d = 10 * (10 * (10 * a + b) + c) + d" by simp
  have k: "1 \<le> 10 * a + b" "1 \<le> 10 * (10 * a + b) + c" using assms(5) by simp_all
  have 1: "str_nat (10 * a + b) = [digit_char a, digit_char b]"
    using assms by (simp add: str_nat_step str_nat_digit)
  have 2: "str_nat (10 * (10 * a + b) + c) = str_nat (10 * a + b) @ [digit_char c]"
    by (rule str_nat_step) (use assms k in simp_all)
  have 3: "str_nat (10 * (10 * (10 * a + b) + c) + d) = str_nat (10 * (10 * a + b) + c) @ [digit_char d]"
    by (rule str_nat_step) (use assms k in simp_all)
  show ?thesis by (simp only: e 1 2 3 append.simps)
qed
lemma str_nat_2: 
  assumes "a < 10" "b < 10" "1 \<le> a"
  shows "str_nat (10 * a + b) = [digit_char a, digit_char b]"
  using assms by (simp add: str_nat_step str_nat_digit)

lemma py_int_4:
  assumes "is_digit a" "is_digit b" "is_digit c" "is_digit d"
  shows "py_int [a, b, c, d] = Some (int (1000 * digit_val a + 100 * digit_val b + 10 * digit_val c + digit_val d))"
  using assms digit_not_space[of a] digit_not_space[of d] digit_not_special[of a]
  by (simp add: py_int_def py_strip_id py_nat_lit_def)


lemma dt_gt_midnight:
  "dt_gt \<lparr>dt_year = y, dt_month = m, dt_day = d, dt_tod = 0\<rparr> dt = date_after (y, m, d) dt"
  by (simp add: dt_gt_def date_after_def)

lemma list4: "length s = 4 \<Longrightarrow> \<exists>a b c d. s = [a, b, c, d]"
  by (cases s; simp; rename_tac x xs; case_tac xs; simp; rename_tac y ys; case_tac ys; simp; rename_tac z zs; case_tac zs; simp)

lemma list2: "length s = 2 \<Longrightarrow> \<exists>a b. s = [a, b]"
  by (cases s; simp; rename_tac x xs; case_tac xs; simp)

lemma py_str_4:
  assumes "is_digit a" "is_digit b" "is_digit c" "is_digit d" "a \<noteq> CHR ''0''"
  shows "py_str (int (1000 * digit_val a + 100 * digit_val b + 10 * digit_val c + digit_val d)) = [a, b, c, d]"
proof -
  have "digit_val a \<noteq> 0" using assms(1,5) digit_eq_iff[of a 0] by (simp add: digit_char_lits)
  then have "1 \<le> digit_val a" by simp
  then have "str_nat (1000 * digit_val a + 100 * digit_val b + 10 * digit_val c + digit_val d)
             = [a, b, c, d]"
    using assms by (simp add: str_nat_4 digit_val_less digit_char_digit_val)
  then show ?thesis unfolding py_str_def by (simp only: nat_int of_nat_less_0_iff if_False)
qed

lemma match_d_31: "match_d ''31'' = Some (31, [])"
  by code_simp
lemma match_m_12: "match_m (CHR ''1'' # CHR ''2'' # r) = Some (12, r)"
  by (simp add: digit_val_def)

lemma strptime_ymd_digits:
  assumes "is_digit a" "is_digit b" "is_digit c" "is_digit d"
      and "match_m rest = Some (m, CHR ''-'' # rest2)" and "match_d rest2 = Some (dd, [])"
  shows "strptime_ymd (a # b # c # d # CHR ''-'' # rest) =
         mk_datetime (int (1000 * digit_val a + 100 * digit_val b + 10 * digit_val c + digit_val d)) m dd"
  using assms unfolding strptime_ymd_def by (simp del: of_nat_add of_nat_mult)

lemma strptime_dec31:
  assumes "is_digit a" "is_digit b" "is_digit c" "is_digit d" "a \<noteq> CHR ''0''"
  shows "strptime_ymd ([a, b, c, d] @ ''-12-31'') =
         Inr \<lparr>dt_year = int (1000 * digit_val a + 100 * digit_val b + 10 * digit_val c + digit_val d),
              dt_month = 12, dt_day = 31, dt_tod = 0\<rparr>"
proof -
  have "digit_val a \<noteq> 0" using assms(1,5) digit_eq_iff[of a 0] by (simp add: digit_char_lits)
  moreover have "digit_val a < 10" "digit_val b < 10" "digit_val c < 10" "digit_val d < 10"
    using assms by (simp_all add: digit_val_less)
  ultimately have v: "valid_ymd (int (1000 * digit_val a + 100 * digit_val b + 10 * digit_val c + digit_val d)) 12 31"
    by (simp add: valid_ymd_def days_in_month_def)
  have "strptime_ymd (a # b # c # d # CHR ''-'' # ''12-31'') =
         mk_datetime (int (1000 * digit_val a + 100 * digit_val b + 10 * digit_val c + digit_val d)) 12 31"
    by (rule strptime_ymd_digits[OF assms(1-4), where ?rest2.0 = "''31''"])
       (simp_all add: digit_val_def match_d_31)
  then show ?thesis using v by (simp add: mk_datetime_def del: of_nat_add of_nat_mult)
qed


section \<open>Properties of the date normalizer\<close>

text \<open>
  Claim C2, as amended. For every string of four decimal digits whose first digit is not
  zero (the years 1000 to 9999), and every reference time that has a previous day:
  normalization in start mode returns the string followed by \<open>-01-01\<close>; in end mode it
  returns the string followed by \<open>-12-31\<close>, unless the 31st of December of that year
  lies after yesterday, in which case it returns yesterday's date.
\<close>

theorem parse_year_string:
  assumes "length s = 4" and "list_all is_digit s" and "hd s \<noteq> CHR ''0''"
      and "minus_one_day now = Inr yesterday"
  shows "\<exists>year. py_int s = Some year \<and> 1000 \<le> year \<and> year \<le> 9999 \<and>
           parse_date_input now s True = Inr (s @ ''-01-01'') \<and>
           parse_date_input now s False =
             Inr (if date_after (year, 12, 31) yesterday then strftime_ymd yesterday
                  else s @ ''-12-31'')"
proof -
  obtain a b c d where s: "s = [a, b, c, d]" using list4[OF assms(1)] by blast
  have dg: "is_digit a" "is_digit b" "is_digit c" "is_digit d" "a \<noteq> CHR ''0''"
    using assms(2,3) s by simp_all
  define y where "y = int (1000 * digit_val a + 100 * digit_val b + 10 * digit_val c + digit_val d)"
  have strip: "py_strip s = s"
    using s dg digit_not_space by (simp add: py_strip_id)
  have pi: "py_int s = Some y" using s dg unfolding y_def by (simp only: py_int_4)
  have ps: "py_str y = s" using s py_str_4[OF dg] unfolding y_def by simp
  have sp: "strptime_ymd (s @ ''-12-31'') =
            Inr \<lparr>dt_year = y, dt_month = 12, dt_day = 31, dt_tod = 0\<rparr>"
    using strptime_dec31[OF dg] s unfolding y_def by simp
  have "digit_val a \<noteq> 0" using dg digit_eq_iff[of a 0] by (simp add: digit_char_lits)
  moreover have "digit_val a < 10" "digit_val b < 10" "digit_val c < 10" "digit_val d < 10"
    using dg by (simp_all add: digit_val_less)
  ultimately have rng: "1000 \<le> y" "y \<le> 9999" unfolding y_def by simp_all
  have st: "parse_date_input now s True = Inr (s @ ''-01-01'')"
    using assms(1,4) by (simp add: parse_date_input_def strip pi ps of_int_opt_def except_ValueError_def)
  have en: "parse_date_input now s False =
             Inr (if date_after (y, 12, 31) yesterday then strftime_ymd yesterday
                  else s @ ''-12-31'')"
    using assms(1,4)
    by (simp add: parse_date_input_def strip pi ps sp of_int_opt_def except_ValueError_def
          dt_gt_midnight)
  show ?thesis using pi rng st en by blast
qed


theorem parse_year_string_witness:
  "parse_date_input \<lparr>dt_year = 2026, dt_month = 11, dt_day = 4, dt_tod = 5000\<rparr> ''2023'' True = Inr ''2023-01-01'' \<and>
   parse_date_input \<lparr>dt_year = 2026, dt_month = 11, dt_day = 4, dt_tod = 5000\<rparr> ''2023'' False = Inr ''2023-12-31'' \<and>
   parse_date_input \<lparr>dt_year = 2026, dt_month = 11, dt_day = 4, dt_tod = 5000\<rparr> ''2026'' False = Inr ''2026-11-03''"
proof -
  let ?now = "\<lparr>dt_year = 2026, dt_month = 11, dt_day = 4, dt_tod = 5000\<rparr>"
  let ?y = "\<lparr>dt_year = 2026, dt_month = 11, dt_day = 3, dt_tod = 5000\<rparr>"
  have m: "minus_one_day ?now = Inr ?y" by (simp add: minus_one_day_def)
  have d: "list_all is_digit ''2023''" "list_all is_digit ''2026''" by (simp_all add: is_digit_def)
  have i: "py_int ''2023'' = Some 2023" "py_int ''2026'' = Some 2026" by code_simp+
  have f: "strftime_ymd ?y = ''2026-11-03''" by code_simp
  from parse_year_string[of "''2023''" ?now ?y, OF _ d(1) _ m]
  have a: "parse_date_input ?now ''2023'' True = Inr ''2023-01-01''"
       "parse_date_input ?now ''2023'' False = Inr ''2023-12-31''"
    by (auto simp add: i date_after_def)
  from parse_year_string[of "''2026''" ?now ?y, OF _ d(2) _ m]
  have b: "parse_date_input ?now ''2026'' False = Inr ''2026-11-03''"
    by (auto simp add: i date_after_def f)
  show ?thesis using a b by simp
qed


text \<open>
  The claim as first stated covers every four-digit string. The year 0000 is no year of
  the calendar, and end mode fails on it; a year below 1000 is written back without its
  leading zeros.
\<close>

theorem parse_year_string_counterexample:
  "parse_date_input \<lparr>dt_year = 2026, dt_month = 11, dt_day = 4, dt_tod = 5000\<rparr> ''0000'' False
     = Inl (ValueError ''Invalid year format. Please use YYYY.'') \<and>
   parse_date_input \<lparr>dt_year = 2026, dt_month = 11, dt_day = 4, dt_tod = 5000\<rparr> ''0999'' True
     = Inr ''999-01-01''"
  by code_simp

end
